theory Spec2Isabelle
  imports Main
begin

section \<open>JavaScript values used by the authentication bridge\<close>

text \<open>
  A JavaScript value that is a string, \<open>null\<close> or \<open>undefined\<close> is a
  \<open>string option\<close>: \<open>None\<close> stands for \<open>null\<close> and for \<open>undefined\<close>, which
  the code never tells apart. Strings are lists of 8-bit characters; the model is exact
  on ASCII text. \<open>truthy\<close> is JavaScript's conversion to a boolean (\<open>!!x\<close>), and
  \<open>or_else a b\<close> is \<open>a || b\<close>.
\<close>

definition truthy :: "string option \<Rightarrow> bool" where
  "truthy x = (case x of None \<Rightarrow> False | Some s \<Rightarrow> s \<noteq> [])"

definition or_else :: "string option \<Rightarrow> string option \<Rightarrow> string option" where
  "or_else a b = (if truthy a then a else b)"

text \<open>\<open>s.replace(/^\<dots>/, '')\<close> for a fixed literal prefix.\<close>

definition strip_prefix :: "string \<Rightarrow> string \<Rightarrow> string" where
  "strip_prefix p s = (if take (length p) s = p then drop (length p) s else s)"

text \<open>The ASCII characters that the regular expression class \<open>\s\<close> matches.\<close>

definition is_space :: "char \<Rightarrow> bool" where
  "is_space c = (c \<in> set [CHR '' '', CHR 0x09, CHR 0x0A, CHR 0x0B, CHR 0x0C, CHR 0x0D])"

text \<open>\<open>s.split(sep)[0]\<close> and \<open>s.split(sep).slice(1).join(sep)\<close> for a one-character separator.\<close>

definition split_head :: "char \<Rightarrow> string \<Rightarrow> string" where
  "split_head sep s = takeWhile (\<lambda>c. c \<noteq> sep) s"

definition split_rest :: "char \<Rightarrow> string \<Rightarrow> string" where
  "split_rest sep s = drop 1 (dropWhile (\<lambda>c. c \<noteq> sep) s)"

text \<open>Decimal digits of a number, as template literals print it.\<close>

fun decimal :: "nat \<Rightarrow> string" where
  "decimal n =
     (if n < 10 then [char_of (48 + n)] else decimal (n div 10) @ [char_of (48 + n mod 10)])"

declare decimal.simps [simp del]

text \<open>Base64 of a byte string (\<open>Buffer.from(s).toString('base64')\<close>, \<open>btoa(s)\<close>).\<close>

definition b64_alphabet :: string where
  "b64_alphabet = ''ABCDEFGHIJKLMNOPQRSTUVWXYZabcdefghijklmnopqrstuvwxyz0123456789+/''"

definition b64_digit :: "nat \<Rightarrow> char" where
  "b64_digit i = b64_alphabet ! (i mod 64)"

fun b64_bytes :: "nat list \<Rightarrow> string" where
  "b64_bytes [] = []"
| "b64_bytes [a] = [b64_digit (a div 4), b64_digit ((a mod 4) * 16), CHR ''='', CHR ''='']"
| "b64_bytes [a, b] =
     [b64_digit (a div 4), b64_digit ((a mod 4) * 16 + b div 16),
      b64_digit ((b mod 16) * 4), CHR ''='']"
| "b64_bytes (a # b # c # rest) =
     [b64_digit (a div 4), b64_digit ((a mod 4) * 16 + b div 16),
      b64_digit ((b mod 16) * 4 + c div 64), b64_digit (c mod 64)] @ b64_bytes rest"

definition base64 :: "string \<Rightarrow> string" where
  "base64 s = b64_bytes (map of_char s)"

section \<open>Server resolver: \<open>src/pages/api/erpnext/auth.js\<close>\<close>

subsection \<open>Data\<close>

text \<open>
  A directory record as the ERP returns it. \<open>name\<close> is the document name, the
  record's internal identifier.
\<close>

record employee =
  name :: string
  first_name :: "string option"
  employee_name :: "string option"
  cell_number :: "string option"
  fsl_whatsapp_number :: "string option"
  company_email :: "string option"
  kly_role_id :: "string option"
  status :: "string option"
  department :: "string option"
  designation :: "string option"
  date_of_joining :: "string option"
  date_of_birth :: "string option"

record customProperties =
  organization :: string
  accessLevel :: string
  provider :: string
  employeeId :: string
  cp_department :: "string option"
  cp_designation :: "string option"
  dateOfJoining :: "string option"
  dateOfBirth :: "string option"

text \<open>The Session User (\<open>userData\<close>).\<close>

record session_user =
  uid :: string
  email :: "string option"
  phoneNumber :: "string option"
  displayName :: string
  role :: string
  roleName :: string
  u_kly_role_id :: "string option"
  authProvider :: string
  customProperties :: customProperties
  employeeData :: employee

text \<open>The request: its method and the fields the handler reads from \<open>req.body\<close>.\<close>

record request =
  rq_method :: string
  rq_email :: "string option"
  rq_phoneNumber :: "string option"
  rq_authProvider :: "string option"
  oneSignalPlayerId :: "string option"
  oneSignalSubscriptionId :: "string option"

text \<open>
  The outcome of an awaited outbound call: a response with its status and body, or a
  rejected promise (also a body that does not parse) with the error's message.
\<close>

datatype 'a fetched = Response nat 'a | Throws string

definition ok :: "nat \<Rightarrow> bool" where
  "ok st = (200 \<le> st \<and> st \<le> 299)"

text \<open>
  The environment of one invocation: \<open>process.env\<close>, the clock, and the answers of
  the two external services. The ERP answers are functions of the query; the three
  notification calls are made at most once per invocation, so each has one outcome.
\<close>

record server_env =
  ERPNEXT_URL :: "string option"
  ERPNEXT_API_KEY :: "string option"
  ERPNEXT_API_SECRET :: "string option"
  NOVU_SECRET_KEY :: "string option"
  NEXT_PUBLIC_NOVU_SECRET_KEY :: "string option"
  NOVU_INTEGRATION_IDENTIFIER :: "string option"
  NEXT_PUBLIC_NOVU_INTEGRATION_IDENTIFIER :: "string option"
  date_now :: nat
  erp_search_cell :: "string \<Rightarrow> employee list fetched"
  erp_get :: "string \<Rightarrow> employee option fetched"
  erp_search_email :: "string \<Rightarrow> employee list fetched"
  novu_create :: "string fetched"
  novu_update :: "string fetched"
  novu_credentials :: "string fetched"

record novu_payload =
  subscriberId :: string
  firstName :: "string option"
  lastName :: "string option"
  np_email :: "string option"
  np_phone :: "string option"

text \<open>
  What an invocation does besides answering: its outbound requests, and its
  \<open>console.warn\<close> and \<open>console.error\<close> lines (first argument, without the emoji),
  in order.
\<close>

datatype event =
    ErpSearchByCell string
  | ErpGetById string
  | ErpSearchByEmail string
  | NovuCreate novu_payload
  | NovuUpdate string novu_payload
  | NovuCredentialsUpdate string string "string option"
  | ConsoleWarn string
  | ConsoleError string

record details =
  searchedPhone :: "string option"
  searchedEmail :: "string option"
  d_employeeId :: "string option"
  d_authProvider :: "string option"
  d_userSource :: string
  d_status :: "string option"

datatype body =
    ErrorOnly string
  | ErrorDetails string string
  | AccessDenied string details
  | Success session_user string string

record reply =
  http_status :: nat
  json :: body

text \<open>
  Control flow inside the handler's \<open>try\<close> block: an exception, an early
  \<open>return res.status(\<dots>).json(\<dots>)\<close>, or falling through to the next statement.
\<close>

datatype 'a flow = Throw string | Return reply | Next 'a

subsection \<open>\<open>createOrUpdateNovuSubscriber\<close>\<close>

text \<open>
  Both requests sit in their own \<open>try\<close>/\<open>catch\<close>: the function returns normally
  whatever the service answers. A create answered with 409 logs at \<open>console.log\<close>
  level only, like a successful one.
\<close>

definition createOrUpdateNovuSubscriber ::
    "server_env \<Rightarrow> novu_payload \<Rightarrow> string option \<Rightarrow> event list" where
  "createOrUpdateNovuSubscriber env payload novuSecretKey =
     (if subscriberId payload = [] \<or> \<not> truthy novuSecretKey
      then [ConsoleWarn ''Missing subscriberId or novuSecretKey for Novu subscriber creation'']
      else
        [NovuCreate payload]
        @ (case novu_create env of
             Response st errText \<Rightarrow>
               if ok st then []
               else if st = 409 then []
               else [ConsoleWarn ''Novu subscriber create failed:'']
           | Throws err \<Rightarrow> [ConsoleWarn ''Novu subscriber create exception:''])
        @ [NovuUpdate (subscriberId payload) payload]
        @ (case novu_update env of
             Response st errText \<Rightarrow>
               if ok st then [] else [ConsoleWarn ''Novu subscriber update failed:'']
           | Throws err \<Rightarrow> [ConsoleWarn ''Novu subscriber update exception:'']))"

subsection \<open>\<open>handler\<close>\<close>

definition denied :: "string \<Rightarrow> details \<Rightarrow> reply" where
  "denied message d = \<lparr>http_status = 403, json = AccessDenied message d\<rparr>"

definition no_details :: "string \<Rightarrow> details" where
  "no_details src =
     \<lparr>searchedPhone = None, searchedEmail = None, d_employeeId = None,
      d_authProvider = None, d_userSource = src, d_status = None\<rparr>"

definition cleanedPhoneNumber :: "string \<Rightarrow> string" where
  "cleanedPhoneNumber phone = strip_prefix ''+'' (strip_prefix ''+91'' phone)"

text \<open>
  Lines 95 to 193: the search by cell number of a phone-only request. It yields
  \<open>employeeIdFromPhone\<close> and \<open>searchValue\<close>. A response without a \<open>data\<close> field
  is the empty list, which the code treats alike.
\<close>

definition phoneSearch ::
    "server_env \<Rightarrow> request \<Rightarrow> (string option \<times> string option) flow \<times> event list" where
  "phoneSearch env req =
     (case rq_phoneNumber req of
        None \<Rightarrow> (Next (None, rq_email req), [])
      | Some phone \<Rightarrow>
          if phone \<noteq> [] \<and> \<not> truthy (rq_email req) then
            (let cleaned = cleanedPhoneNumber phone in
             case erp_search_cell env cleaned of
               Throws msg \<Rightarrow> (Throw msg, [ErpSearchByCell cleaned])
             | Response st found \<Rightarrow>
                 if ok st then
                   (case found of
                      employee # others \<Rightarrow>
                        if status employee \<noteq> Some ''Active'' then
                          (Return (denied
                             ''Your account is not active. Please contact your administrator.''
                             ((no_details ''phone_inactive'')
                                \<lparr>searchedPhone := Some phone,
                                 d_authProvider := rq_authProvider req,
                                 d_status := status employee\<rparr>)),
                           [ErpSearchByCell cleaned, ConsoleWarn ''Employee account is not active:''])
                        else
                          (Next (Some (name employee),
                                 if truthy (company_email employee) then company_email employee
                                 else rq_email req),
                           [ErpSearchByCell cleaned])
                    | [] \<Rightarrow>
                        (Return (denied
                           ''Phone number not found in organization. Please contact your administrator.''
                           ((no_details ''phone_not_found'')
                              \<lparr>searchedPhone := Some phone,
                               d_authProvider := rq_authProvider req\<rparr>)),
                         [ErpSearchByCell cleaned, ConsoleWarn ''No employee found for phone number:'']))
                 else
                   (Return (denied
                      ''Unable to verify phone number. Please contact your administrator.''
                      ((no_details ''phone_search_failed'')
                         \<lparr>searchedPhone := Some phone,
                          d_authProvider := rq_authProvider req\<rparr>)),
                    [ErpSearchByCell cleaned, ConsoleWarn ''Employee search failed:'']))
          else (Next (None, rq_email req), []))"

definition userProperties :: "string \<Rightarrow> employee \<Rightarrow> customProperties" where
  "userProperties prov employee =
     \<lparr>organization = ''Elbrit Life Sciences'', accessLevel = ''full'', provider = prov,
      employeeId = name employee, cp_department = department employee,
      cp_designation = designation employee, dateOfJoining = date_of_joining employee,
      dateOfBirth = date_of_birth employee\<rparr>"

text \<open>Lines 240 to 260: the Session User of a record fetched by identifier.\<close>

definition userById :: "request \<Rightarrow> employee \<Rightarrow> session_user" where
  "userById req employee =
     (let prov = (case or_else (rq_authProvider req) (Some ''phone'') of
                    Some p \<Rightarrow> p | None \<Rightarrow> ''phone'') in
      \<lparr>uid = name employee,
       email = or_else (company_email employee) (Some (name employee @ ''@elbrit.org'')),
       phoneNumber = or_else (cell_number employee) (fsl_whatsapp_number employee),
       displayName =
         (case or_else (first_name employee) (or_else (employee_name employee) (Some ''User'')) of
            Some n \<Rightarrow> n | None \<Rightarrow> ''User''),
       role = ''admin'', roleName = ''Admin'',
       u_kly_role_id = or_else (kly_role_id employee) None,
       authProvider = prov,
       customProperties = userProperties prov employee,
       employeeData = employee\<rparr>)"

text \<open>Lines 316 to 336: the Session User of a record found by company email.\<close>

definition userByEmail :: "request \<Rightarrow> employee \<Rightarrow> session_user" where
  "userByEmail req employee =
     (let prov = (case or_else (rq_authProvider req) (Some ''microsoft'') of
                    Some p \<Rightarrow> p | None \<Rightarrow> ''microsoft'') in
      \<lparr>uid = name employee,
       email = company_email employee,
       phoneNumber = or_else (cell_number employee) (fsl_whatsapp_number employee),
       displayName =
         (case or_else (first_name employee)
                 (or_else (employee_name employee)
                    (or_else (map_option (split_head CHR ''@'') (company_email employee))
                       (Some ''User''))) of
            Some n \<Rightarrow> n | None \<Rightarrow> ''User''),
       role = ''admin'', roleName = ''Admin'',
       u_kly_role_id = or_else (kly_role_id employee) None,
       authProvider = prov,
       customProperties = userProperties prov employee,
       employeeData = employee\<rparr>)"

definition fetchById ::
    "server_env \<Rightarrow> request \<Rightarrow> string \<Rightarrow> (session_user \<times> string) option flow \<times> event list" where
  "fetchById env req employeeIdFromPhone =
     (case erp_get env employeeIdFromPhone of
        Throws msg \<Rightarrow> (Throw msg, [ErpGetById employeeIdFromPhone])
      | Response st found \<Rightarrow>
          if ok st then
            (case found of
               None \<Rightarrow> (Next None, [ErpGetById employeeIdFromPhone])
             | Some employee \<Rightarrow>
                 if status employee \<noteq> Some ''Active'' then
                   (Return (denied
                      ''Your account is not active. Please contact your administrator.''
                      ((no_details ''employee_inactive'')
                         \<lparr>d_employeeId := Some employeeIdFromPhone,
                          d_authProvider := rq_authProvider req,
                          d_status := status employee\<rparr>)),
                    [ErpGetById employeeIdFromPhone, ConsoleWarn ''Employee account is not active:''])
                 else
                   (Next (Some (userById req employee, ''employee_by_id'')),
                    [ErpGetById employeeIdFromPhone]))
          else
            (Next None,
             [ErpGetById employeeIdFromPhone, ConsoleWarn ''Employee fetch by ID failed:'',
              ConsoleWarn ''Error response:'']))"

definition searchByEmail ::
    "server_env \<Rightarrow> request \<Rightarrow> string \<Rightarrow> (session_user \<times> string) option flow \<times> event list" where
  "searchByEmail env req searchValue =
     (case erp_search_email env searchValue of
        Throws msg \<Rightarrow> (Throw msg, [ErpSearchByEmail searchValue])
      | Response st found \<Rightarrow>
          if ok st then
            (case found of
               [] \<Rightarrow> (Next None, [ErpSearchByEmail searchValue])
             | employee # others \<Rightarrow>
                 if status employee \<noteq> Some ''Active'' then
                   (Return (denied
                      ''Your account is not active. Please contact your administrator.''
                      ((no_details ''employee_inactive'')
                         \<lparr>searchedEmail := Some searchValue,
                          d_authProvider := rq_authProvider req,
                          d_status := status employee\<rparr>)),
                    [ErpSearchByEmail searchValue, ConsoleWarn ''Employee account is not active:''])
                 else
                   (Next (Some (userByEmail req employee, ''employee_by_email'')),
                    [ErpSearchByEmail searchValue]))
          else
            (Next None,
             [ErpSearchByEmail searchValue, ConsoleWarn ''Employee search by email failed:'',
              ConsoleWarn ''Error response:'']))"

text \<open>Lines 196 to 345: by identifier when the phone search gave one, else by email.\<close>

definition fetchUserData ::
    "server_env \<Rightarrow> request \<Rightarrow> string option \<Rightarrow> string option
       \<Rightarrow> (session_user \<times> string) option flow \<times> event list" where
  "fetchUserData env req employeeIdFromPhone searchValue =
     (if truthy employeeIdFromPhone then
        (case employeeIdFromPhone of
           Some i \<Rightarrow> fetchById env req i
         | None \<Rightarrow> (Next None, []))
      else if truthy searchValue then
        (case searchValue of
           Some v \<Rightarrow> searchByEmail env req v
         | None \<Rightarrow> (Next None, []))
      else (Next None, []))"

definition mintToken :: "server_env \<Rightarrow> session_user \<Rightarrow> string" where
  "mintToken env userData = base64 (uid userData @ '':'' @ decimal (date_now env))"

text \<open>
  Lines 379 to 446. \<open>novuTry\<close> is the body of the \<open>try\<close> block, with \<open>Inl\<close>
  for an exception: the SDK's credentials update throws when the service does not accept
  it. \<open>novuSync\<close> adds the \<open>catch\<close>, which logs and goes on.
\<close>

definition novuPayload :: "string \<Rightarrow> session_user \<Rightarrow> novu_payload" where
  "novuPayload sid userData =
     \<lparr>subscriberId = sid,
      firstName = or_else (Some (split_head CHR '' '' (displayName userData))) None,
      lastName = or_else (Some (split_rest CHR '' '' (displayName userData))) None,
      np_email = or_else (email userData) None,
      np_phone = or_else (phoneNumber userData) None\<rparr>"

definition novuTry ::
    "server_env \<Rightarrow> request \<Rightarrow> session_user \<Rightarrow> string \<Rightarrow> (string + unit) \<times> event list" where
  "novuTry env req userData sid =
     (let novuSecretKey = or_else (NOVU_SECRET_KEY env) (NEXT_PUBLIC_NOVU_SECRET_KEY env) in
      if truthy novuSecretKey then
        (let created = createOrUpdateNovuSubscriber env (novuPayload sid userData) novuSecretKey in
         case oneSignalPlayerId req of
           None \<Rightarrow> (Inr (), created)
         | Some playerId \<Rightarrow>
             if playerId = [] then (Inr (), created)
             else
               (let integrationIdentifier =
                      or_else (NOVU_INTEGRATION_IDENTIFIER env)
                        (or_else (NEXT_PUBLIC_NOVU_INTEGRATION_IDENTIFIER env) None);
                    called = created @ [NovuCredentialsUpdate sid playerId integrationIdentifier] in
                case novu_credentials env of
                  Throws msg \<Rightarrow> (Inl msg, called)
                | Response st text \<Rightarrow>
                    if ok st then (Inr (), called) else (Inl text, called)))
      else (Inr (), [ConsoleWarn ''Novu secret key not found. Skipping Novu subscriber creation.'']))"

definition novuSync :: "server_env \<Rightarrow> request \<Rightarrow> session_user \<Rightarrow> event list" where
  "novuSync env req userData =
     (case or_else (Some (employeeId (customProperties userData)))
             (or_else (Some (uid userData))
                (or_else (Some (name (employeeData userData))) None)) of
        None \<Rightarrow> [ConsoleWarn ''Employee ID not available from ERPNext - skipping Novu subscriber creation'']
      | Some sid \<Rightarrow>
          (case novuTry env req userData sid of
             (Inl msg, evs) \<Rightarrow> evs @ [ConsoleError ''Error creating/updating Novu subscriber:'']
           | (Inr u, evs) \<Rightarrow> evs))"

text \<open>
  Lines 74 to 453, the body of the handler's \<open>try\<close> block: \<open>Inl\<close> an exception,
  \<open>Inr\<close> the response it returns.
\<close>

definition resolve :: "server_env \<Rightarrow> request \<Rightarrow> (string + reply) \<times> event list" where
  "resolve env req =
     (if \<not> truthy (ERPNEXT_URL env) \<or> \<not> truthy (ERPNEXT_API_KEY env)
         \<or> \<not> truthy (ERPNEXT_API_SECRET env)
      then (Inr \<lparr>http_status = 500, json = ErrorOnly ''ERPNext configuration missing''\<rparr>,
            [ConsoleError ''ERPNext environment variables not configured''])
      else
        (case phoneSearch env req of
           (Throw msg, evs) \<Rightarrow> (Inl msg, evs)
         | (Return r, evs) \<Rightarrow> (Inr r, evs)
         | (Next (employeeIdFromPhone, searchValue), evs) \<Rightarrow>
             (case fetchUserData env req employeeIdFromPhone searchValue of
                (Throw msg, evs') \<Rightarrow> (Inl msg, evs @ evs')
              | (Return r, evs') \<Rightarrow> (Inr r, evs @ evs')
              | (Next None, evs') \<Rightarrow>
                  (Inr (denied
                     ''User not found in organization. Please contact your administrator.''
                     ((no_details ''not_found'')
                        \<lparr>searchedEmail := searchValue,
                         d_authProvider := rq_authProvider req\<rparr>)),
                   evs @ evs')
              | (Next (Some (userData, userSource)), evs') \<Rightarrow>
                  (Inr \<lparr>http_status = 200,
                        json = Success userData (mintToken env userData) userSource\<rparr>,
                   evs @ evs' @ novuSync env req userData))))"

text \<open>
  The handler: the method and input checks, then the \<open>try\<close> block, whose exceptions
  become a 500. It gives the response and what the invocation did.
\<close>

definition handler :: "server_env \<Rightarrow> request \<Rightarrow> reply \<times> event list" where
  "handler env req =
     (if rq_method req \<noteq> ''POST''
      then (\<lparr>http_status = 405, json = ErrorOnly ''Method not allowed''\<rparr>, [])
      else if \<not> truthy (rq_email req) \<and> \<not> truthy (rq_phoneNumber req)
      then (\<lparr>http_status = 400, json = ErrorOnly ''Email or phone number is required''\<rparr>, [])
      else
        (case resolve env req of
           (Inl msg, evs) \<Rightarrow>
             (\<lparr>http_status = 500, json = ErrorDetails ''ERPNext authentication failed'' msg\<rparr>,
              evs @ [ConsoleError ''ERPNext Auth Error:''])
         | (Inr r, evs) \<Rightarrow> (r, evs)))"

text \<open>The outbound requests among the events.\<close>

fun is_erp_call :: "event \<Rightarrow> bool" where
  "is_erp_call (ErpSearchByCell c) = True"
| "is_erp_call (ErpGetById i) = True"
| "is_erp_call (ErpSearchByEmail m) = True"
| "is_erp_call ev = False"

fun is_fetch_by_id :: "event \<Rightarrow> bool" where
  "is_fetch_by_id (ErpGetById i) = True"
| "is_fetch_by_id ev = False"

definition configured :: "server_env \<Rightarrow> bool" where
  "configured env =
     (truthy (ERPNEXT_URL env) \<and> truthy (ERPNEXT_API_KEY env) \<and> truthy (ERPNEXT_API_SECRET env))"

text \<open>
  A model of the external directory for stating scenarios: it answers every query from a
  list of records, the list queries by exact match on the field.
\<close>

definition directory :: "employee list \<Rightarrow> server_env \<Rightarrow> server_env" where
  "directory records env =
     env\<lparr>erp_search_cell := (\<lambda>c. Response 200 (filter (\<lambda>e. cell_number e = Some c) records)),
         erp_get := (\<lambda>i. case find (\<lambda>e. name e = i) records of
                            Some e \<Rightarrow> Response 200 (Some e)
                          | None \<Rightarrow> Response 404 None),
         erp_search_email :=
           (\<lambda>m. Response 200 (filter (\<lambda>e. company_email e = Some m) records))\<rparr>"

text \<open>
  The directory lookup alone: the record the two lookup steps resolve and the path that
  found it, or \<open>None\<close> when a step answers early or throws.
\<close>

definition directoryLookup :: "server_env \<Rightarrow> request \<Rightarrow> (session_user \<times> string) option" where
  "directoryLookup env req =
     (case phoneSearch env req of
        (Next (employeeIdFromPhone, searchValue), evs) \<Rightarrow>
          (case fetchUserData env req employeeIdFromPhone searchValue of
             (Next found, evs') \<Rightarrow> found
           | (other, evs') \<Rightarrow> None)
      | (other, evs) \<Rightarrow> None)"

subsection \<open>Example inputs\<close>

definition example_env :: server_env where
  "example_env =
     \<lparr>ERPNEXT_URL = Some ''https://erp.example'', ERPNEXT_API_KEY = Some ''key'',
      ERPNEXT_API_SECRET = Some ''secret'', NOVU_SECRET_KEY = Some ''novu-secret'',
      NEXT_PUBLIC_NOVU_SECRET_KEY = None, NOVU_INTEGRATION_IDENTIFIER = None,
      NEXT_PUBLIC_NOVU_INTEGRATION_IDENTIFIER = None, date_now = 1700000000000,
      erp_search_cell = (\<lambda>c. Response 200 []), erp_get = (\<lambda>i. Response 404 None),
      erp_search_email = (\<lambda>m. Response 200 []),
      novu_create = Response 201 [], novu_update = Response 200 [],
      novu_credentials = Response 200 []\<rparr>"

definition example_employee :: employee where
  "example_employee =
     \<lparr>name = ''HR-EMP-00001'', first_name = Some ''Asha'', employee_name = Some ''Asha Rao'',
      cell_number = Some ''9876543210'', fsl_whatsapp_number = None, company_email = None,
      kly_role_id = Some ''R-7'', status = Some ''Active'', department = Some ''Sales'',
      designation = None, date_of_joining = None, date_of_birth = None\<rparr>"


definition phone_request :: "string \<Rightarrow> request" where
  "phone_request phone =
     \<lparr>rq_method = ''POST'', rq_email = None, rq_phoneNumber = Some phone, rq_authProvider = None,
      oneSignalPlayerId = None, oneSignalSubscriptionId = None\<rparr>"

section \<open>Client observer: \<open>src/components/AuthContext.js\<close>\<close>

subsection \<open>Helpers\<close>

text \<open>\<open>toUpperCase\<close> on a string of ASCII characters.\<close>

definition toUpperCase :: "string \<Rightarrow> string" where
  "toUpperCase s =
     map (\<lambda>c. let n = (of_char c :: nat) in if 97 \<le> n \<and> n \<le> 122 then char_of (n - 32) else c) s"

text \<open>
  What \<open>localStorage.setItem\<close> stores for a value that is not a string: the text of
  \<open>undefined\<close> (or of \<open>null\<close>, which the model does not tell apart).
\<close>

definition js_string :: "string option \<Rightarrow> string" where
  "js_string x = (case x of None \<Rightarrow> ''undefined'' | Some s \<Rightarrow> s)"

text \<open>
  \<open>generateAvatarSvg\<close>. \<open>r\<close> is the value of
  \<open>Math.floor(Math.random() * colors.length)\<close>, a number below 15.
\<close>

definition colors :: "string list" where
  "colors =
     [''#FF6B6B'', ''#4ECDC4'', ''#45B7D1'', ''#96CEB4'', ''#FFEAA7'',
      ''#DDA0DD'', ''#98D8C8'', ''#F7DC6F'', ''#BB8FCE'', ''#85C1E9'',
      ''#F8C471'', ''#82E0AA'', ''#F1948A'', ''#85C1E9'', ''#D7BDE2'']"

definition svgText :: "string \<Rightarrow> string \<Rightarrow> string" where
  \<open>svgText backgroundColor letter =
     [CHR 0x0A]
     @ ''    <svg width="40" height="40" viewBox="0 0 40 40" xmlns="http://www.w3.org/2000/svg">''
     @ [CHR 0x0A]
     @ ''      <circle cx="20" cy="20" r="20" fill="'' @ backgroundColor @ ''"/>''
     @ [CHR 0x0A]
     @ ''      <text x="20" y="26" font-family="Arial, sans-serif" font-size="16" font-weight="bold" ''
     @ [CHR 0x0A]
     @ ''            text-anchor="middle" fill="white">'' @ letter @ ''</text>''
     @ [CHR 0x0A]
     @ ''    </svg>''
     @ [CHR 0x0A]
     @ ''  ''\<close>

definition generateAvatarSvg :: "nat \<Rightarrow> string \<Rightarrow> string" where
  "generateAvatarSvg r letter =
     ''data:image/svg+xml;base64,'' @ base64 (svgText (colors ! (r mod length colors)) letter)"

text \<open>
  \<open>cleanPhoneNumber\<close>: after the country code, a remaining plus sign and all
  whitespace are removed, a leading 91 is removed as well when more than ten characters
  are left.
\<close>

definition cleanPhoneNumber :: "string option \<Rightarrow> string option" where
  "cleanPhoneNumber p =
     (case p of
        None \<Rightarrow> None
      | Some phone \<Rightarrow>
          if phone = [] then None
          else
            (let cleanedNumber = strip_prefix ''+91'' phone;
                 cleanedNumber' = filter (\<lambda>c. \<not> is_space c) (strip_prefix ''+'' cleanedNumber)
             in Some (if take 2 cleanedNumber' = ''91'' \<and> length cleanedNumber' > 10
                      then drop 2 cleanedNumber' else cleanedNumber')))"

text \<open>
  The principal the identity provider reports: its email, its phone number and the
  \<open>providerId\<close> of each entry of \<open>providerData\<close>.
\<close>

record firebase_user =
  fb_email :: "string option"
  fb_phoneNumber :: "string option"
  providerData :: "string list"

definition providerOf :: "firebase_user \<Rightarrow> string" where
  "providerOf u =
     (if truthy (fb_phoneNumber u) then ''phone''
      else (case providerData u of
              [] \<Rightarrow> ''email''
            | providerId # others \<Rightarrow>
                if providerId = ''microsoft.com'' then ''microsoft'' else ''email''))"

definition getAuthProvider :: "firebase_user option \<Rightarrow> string option" where
  "getAuthProvider u = map_option providerOf u"

subsection \<open>Local storage\<close>

type_synonym storage = "string \<rightharpoonup> string"

definition setItem :: "string \<Rightarrow> string \<Rightarrow> storage \<Rightarrow> storage" where
  "setItem k v ls = ls(k \<mapsto> v)"

definition removeItem :: "string \<Rightarrow> storage \<Rightarrow> storage" where
  "removeItem k ls = ls(k := None)"

text \<open>A run of \<open>setItem\<close> calls and a run of \<open>removeItem\<close> calls, in order.\<close>

definition setItems :: "(string \<times> string) list \<Rightarrow> storage \<Rightarrow> storage" where
  "setItems kvs ls = fold (\<lambda>(k, v). setItem k v) kvs ls"

definition removeItems :: "string list \<Rightarrow> storage \<Rightarrow> storage" where
  "removeItems ks ls = fold removeItem ks ls"

text \<open>
  The nine keys the specification documents: session token, serialized session user,
  phone number, auth-provider tag, auth-type marker, avatar image, display initial,
  employee identifier, organization role identifier.
\<close>

definition documented_keys :: "string list" where
  "documented_keys =
     [''erpnextAuthToken'', ''erpnextUser'', ''userPhoneNumber'', ''authProvider'',
      ''authType'', ''userAvatar'', ''userInitial'', ''employeeId'', ''klyRoleId'']"

definition present_keys :: "storage \<Rightarrow> string list" where
  "present_keys ls = filter (\<lambda>k. ls k \<noteq> None) documented_keys"

subsection \<open>State\<close>

text \<open>
  \<open>JSON.stringify\<close> and \<open>JSON.parse\<close> on the Session User are the platform's;
  they are parameters. A parse throws, gives \<open>null\<close>, or gives a user object.
\<close>

datatype parsed = ParseError | ParsedNull | Parsed session_user

record platform =
  json_stringify :: "session_user \<Rightarrow> string"
  json_parse :: "string \<Rightarrow> parsed"

text \<open>
  A transition that awaits the resolver: the local variables of the suspended callback.
\<close>

record pending =
  p_user :: firebase_user
  p_provider :: string
  emailForERPNext :: "string option"
  phoneForERPNext :: "string option"

text \<open>
  Where the callback of a signed-in notification is suspended: awaiting the resolver's
  answer, or, after a successful answer was handled, awaiting the best-effort calls to
  the push SDK that precede its \<open>finally\<close> block.
\<close>

datatype suspended = AwaitingResolver pending | AwaitingPushSdk

text \<open>
  The provider's state: the React state variables, the two refs, local storage, the
  notices shown with \<open>alert\<close>, and the suspended callback, if any.
\<close>

record auth_state =
  user :: "session_user option"
  token :: "string option"
  loading :: bool
  firebaseUser :: "firebase_user option"
  isAuthenticated :: bool
  st_phoneNumber :: "string option"
  st_authProvider :: "string option"
  authStateRef :: "firebase_user option"
  isProcessingRef :: bool
  localStorage :: storage
  alerts :: "string list"
  inflight :: "suspended option"

definition initial :: "storage \<Rightarrow> auth_state" where
  "initial ls =
     \<lparr>user = None, token = None, loading = True, firebaseUser = None, isAuthenticated = False,
      st_phoneNumber = None, st_authProvider = None, authStateRef = None,
      isProcessingRef = False, localStorage = ls, alerts = [], inflight = None\<rparr>"

text \<open>The context's exported flag: \<open>!!user && !!token\<close>.\<close>

definition value_isAuthenticated :: "auth_state \<Rightarrow> bool" where
  "value_isAuthenticated s = (user s \<noteq> None \<and> truthy (token s))"

text \<open>The transition that awaits the resolver, if there is one.\<close>

definition awaited :: "auth_state \<Rightarrow> pending option" where
  "awaited s = (case inflight s of Some (AwaitingResolver p) \<Rightarrow> Some p | other \<Rightarrow> None)"

subsection \<open>\<open>loadAuthFromStorage\<close> and \<open>refreshAuth\<close>\<close>

text \<open>
  The keys the \<open>catch\<close> block of \<open>loadAuthFromStorage\<close> removes when the stored
  user does not parse, or parses to \<open>null\<close> (reading \<open>parsedUser.email\<close> then
  throws, after the token and the null user were set).
\<close>

definition invalid_storage_keys :: "string list" where
  "invalid_storage_keys =
     [''erpnextAuthToken'', ''erpnextUser'', ''userPhoneNumber'', ''authProvider'', ''authType'',
      ''authMethod'', ''userEmail'', ''userDisplayName'', ''userRole'', ''employeeId'',
      ''klyRoleId'']"

definition loadPhoneAndProvider :: "auth_state \<Rightarrow> auth_state" where
  "loadPhoneAndProvider s =
     (let storedPhoneNumber = localStorage s ''userPhoneNumber'';
          storedAuthProvider = localStorage s ''authProvider'';
          s1 = (if truthy storedPhoneNumber then s\<lparr>st_phoneNumber := storedPhoneNumber\<rparr> else s)
      in if truthy storedAuthProvider then s1\<lparr>st_authProvider := storedAuthProvider\<rparr> else s1)"

definition loadAuthFromStorage :: "platform \<Rightarrow> auth_state \<Rightarrow> auth_state" where
  "loadAuthFromStorage E s =
     (let storedToken = localStorage s ''erpnextAuthToken'';
          storedUser = localStorage s ''erpnextUser'';
          storedAuthType = localStorage s ''authType''
      in if truthy storedToken \<and> truthy storedUser \<and> storedAuthType = Some ''erpnext'' then
           (case json_parse E (js_string storedUser) of
              ParseError \<Rightarrow>
                s\<lparr>localStorage := removeItems invalid_storage_keys (localStorage s)\<rparr>
            | ParsedNull \<Rightarrow>
                s\<lparr>token := storedToken, user := None, isAuthenticated := False,
                  localStorage := removeItems invalid_storage_keys (localStorage s)\<rparr>
            | Parsed parsedUser \<Rightarrow>
                loadPhoneAndProvider
                  (s\<lparr>token := storedToken, user := Some parsedUser, isAuthenticated := True\<rparr>))
         else loadPhoneAndProvider s)"

definition refreshAuth :: "platform \<Rightarrow> auth_state \<Rightarrow> auth_state" where
  "refreshAuth E s = loadAuthFromStorage E s"

subsection \<open>The observer of sign-in and sign-out notifications\<close>

text \<open>
  The callback of \<open>onAuthStateChanged\<close> is asynchronous. \<open>onAuthStateChanged\<close> is
  its run from a notification to its first suspension: a notification that finds
  \<open>isProcessingRef\<close> set returns at once; the signed-out branch awaits nothing and runs to
  the end, \<open>finally\<close> block included; the signed-in branch stops awaiting the resolver,
  its local variables kept in \<open>inflight\<close>. Local storage is taken to accept every write.
\<close>

definition signed_out_keys :: "string list" where
  "signed_out_keys =
     [''erpnextAuthToken'', ''erpnextUser'', ''userPhoneNumber'', ''authProvider'', ''authType'',
      ''authMethod'', ''userEmail'', ''userDisplayName'', ''userRole'', ''employeeData'',
      ''phoneUserData'', ''employeeId'', ''klyRoleId'']"

definition finallyBlock :: "auth_state \<Rightarrow> auth_state" where
  "finallyBlock s = s\<lparr>loading := False, isProcessingRef := False, inflight := None\<rparr>"

definition signedIn :: "auth_state \<Rightarrow> firebase_user \<Rightarrow> auth_state" where
  "signedIn s fbUser =
     (let prov = providerOf fbUser;
          s1 = s\<lparr>st_authProvider := Some prov\<rparr>;
          s2 = (if truthy (fb_phoneNumber fbUser) then
                  (let cleanedPhoneNumber = cleanPhoneNumber (fb_phoneNumber fbUser) in
                   s1\<lparr>st_phoneNumber := cleanedPhoneNumber,
                      localStorage :=
                        setItems [(''userPhoneNumber'', js_string cleanedPhoneNumber),
                                  (''authProvider'', prov)] (localStorage s1)\<rparr>)
                else if prov = ''microsoft'' then
                  s1\<lparr>localStorage := setItem ''authProvider'' prov (localStorage s1)\<rparr>
                else s1);
          emailFor = (if truthy (fb_email fbUser) then fb_email fbUser
                      else or_else (localStorage s2 ''userEmail'') None);
          phoneFor = (if truthy (fb_phoneNumber fbUser) then fb_phoneNumber fbUser
                      else or_else (localStorage s2 ''userPhoneNumber'') None)
      in s2\<lparr>inflight := Some (AwaitingResolver
                               \<lparr>p_user = fbUser, p_provider = prov,
                                emailForERPNext = emailFor, phoneForERPNext = phoneFor\<rparr>)\<rparr>)"

definition signedOut :: "auth_state \<Rightarrow> auth_state" where
  "signedOut s =
     s\<lparr>user := None, token := None, isAuthenticated := False, st_phoneNumber := None,
       st_authProvider := None,
       localStorage := removeItems signed_out_keys (localStorage s)\<rparr>"

definition onAuthStateChanged :: "auth_state \<Rightarrow> firebase_user option \<Rightarrow> auth_state" where
  "onAuthStateChanged s notified =
     (if isProcessingRef s then s
      else
        (let s1 = s\<lparr>isProcessingRef := True, authStateRef := notified, firebaseUser := notified\<rparr>
         in case notified of
              Some fbUser \<Rightarrow> signedIn s1 fbUser
            | None \<Rightarrow> finallyBlock (signedOut s1)))"

text \<open>
  The request the suspended callback sends, given the push identifiers it could read.
\<close>

definition resolverRequest :: "pending \<Rightarrow> string option \<Rightarrow> string option \<Rightarrow> request" where
  "resolverRequest p playerId subscriptionId =
     \<lparr>rq_method = ''POST'', rq_email = emailForERPNext p, rq_phoneNumber = phoneForERPNext p,
      rq_authProvider = Some (p_provider p), oneSignalPlayerId = playerId,
      oneSignalSubscriptionId = subscriptionId\<rparr>"

text \<open>
  What the awaited \<open>fetch\<close> gives the callback: a 2xx response whose body holds the
  user, the token and the lookup path; a response with another status; or an exception
  (the request fails, the body does not parse or holds no user).
\<close>

datatype resolver_outcome = Resolved session_user string string | Failed nat | Threw

fun is_resolved :: "resolver_outcome \<Rightarrow> bool" where
  "is_resolved (Resolved u t src) = True"
| "is_resolved out = False"

definition failed_keys :: "string list" where
  "failed_keys = [''erpnextAuthToken'', ''erpnextUser'', ''employeeId'', ''klyRoleId'']"

definition error_keys :: "string list" where
  "error_keys =
     [''erpnextAuthToken'', ''erpnextUser'', ''authType'', ''authProvider'', ''authMethod'',
      ''userEmail'', ''userDisplayName'', ''userRole'', ''userPhoneNumber'', ''userAvatar'',
      ''userInitial'', ''userAvatar'', ''userInitial'', ''employeeId'', ''klyRoleId'']"

definition employeeIdOf :: "session_user \<Rightarrow> string" where
  "employeeIdOf u =
     js_string (or_else (Some (employeeId (customProperties u)))
                  (or_else (Some (uid u)) (or_else (Some (name (employeeData u))) (Some []))))"

definition firstLetterOf :: "session_user \<Rightarrow> string" where
  "firstLetterOf u =
     js_string (or_else (Some (toUpperCase (take 1 (displayName u))))
                  (or_else (map_option (\<lambda>e. toUpperCase (take 1 e)) (email u)) (Some ''U'')))"

text \<open>
  Lines 303 to 475: the callback resumed with the resolver's answer. \<open>r\<close> is the
  random number of \<open>generateAvatarSvg\<close>; \<open>pushSdk\<close> tells whether
  \<open>window.OneSignal\<close> is loaded. If it is, the success branch, after its writes, awaits
  best-effort calls to the push SDK, which touch nothing of this state, and only then
  reaches the \<open>finally\<close> block; \<open>pushSdkSettled\<close> is the callback resumed
  after these calls. Every other path runs to the end of the \<open>finally\<close> block.
\<close>

definition resolverReplied ::
    "platform \<Rightarrow> auth_state \<Rightarrow> resolver_outcome \<Rightarrow> nat \<Rightarrow> bool \<Rightarrow> auth_state" where
  "resolverReplied E s out r pushSdk =
     (case inflight s of
        Some (AwaitingResolver p) \<Rightarrow>
          (case out of
             Resolved finalUser erpnextToken userSource \<Rightarrow>
               (let s' =
                  s\<lparr>user := Some finalUser, token := Some erpnextToken, isAuthenticated := True,
                    localStorage :=
                      setItems
                        [(''erpnextAuthToken'', erpnextToken),
                         (''erpnextUser'', json_stringify E finalUser),
                         (''authType'', ''erpnext''),
                         (''authProvider'', p_provider p),
                         (''authMethod'', if p_provider p = ''phone'' then ''phone'' else ''microsoft''),
                         (''employeeId'', employeeIdOf finalUser),
                         (''userEmail'', js_string (email finalUser)),
                         (''userDisplayName'', displayName finalUser),
                         (''userRole'', role finalUser),
                         (''userPhoneNumber'', js_string (or_else (phoneNumber finalUser) (Some []))),
                         (''userAvatar'', generateAvatarSvg r (firstLetterOf finalUser)),
                         (''userInitial'', firstLetterOf finalUser),
                         (''klyRoleId'', js_string (or_else (u_kly_role_id finalUser) (Some ''null'')))]
                        (localStorage s)\<rparr>
                in if pushSdk then s'\<lparr>inflight := Some AwaitingPushSdk\<rparr> else finallyBlock s')
           | Failed st \<Rightarrow>
               finallyBlock
                 (s\<lparr>user := None, token := None, isAuthenticated := False,
                    alerts := (if st = 403
                               then alerts s @ [''Access Denied: You are not authorized to access this system. Please contact your administrator.'']
                               else alerts s),
                    localStorage := removeItems failed_keys (localStorage s)\<rparr>)
           | Threw \<Rightarrow>
               finallyBlock
                 (s\<lparr>user := None, token := None, isAuthenticated := False,
                    localStorage := removeItems error_keys (localStorage s)\<rparr>))
      | other \<Rightarrow> s)"

definition pushSdkSettled :: "auth_state \<Rightarrow> auth_state" where
  "pushSdkSettled s =
     (case inflight s of Some AwaitingPushSdk \<Rightarrow> finallyBlock s | other \<Rightarrow> s)"

subsection \<open>\<open>login\<close> and \<open>logout\<close>\<close>

definition login :: "platform \<Rightarrow> auth_state \<Rightarrow> session_user \<Rightarrow> string \<Rightarrow> auth_state" where
  "login E s erpnextUser erpnextToken =
     s\<lparr>user := Some erpnextUser, token := Some erpnextToken,
       localStorage :=
         setItems [(''erpnextAuthToken'', erpnextToken),
                   (''erpnextUser'', json_stringify E erpnextUser),
                   (''employeeId'', employeeIdOf erpnextUser)] (localStorage s)\<rparr>"

text \<open>
  \<open>logout\<close> in the browser, where the provider's module is loaded, after the
  provider's \<open>signOut\<close> call returned or threw. The signed-out notification that the
  call provokes reaches the observer as a notification of its own.
\<close>

definition logout_keys :: "string list" where
  "logout_keys =
     [''erpnextAuthToken'', ''erpnextUser'', ''userPhoneNumber'', ''authProvider'',
      ''employeeId'', ''klyRoleId'']"

definition logout :: "auth_state \<Rightarrow> auth_state" where
  "logout s =
     s\<lparr>user := None, token := None, st_phoneNumber := None, st_authProvider := None,
       localStorage := removeItems logout_keys (localStorage s)\<rparr>"

subsection \<open>Runs of the provider\<close>

text \<open>
  What can happen to the mounted provider, one at a time: a notification arrives, the
  awaited resolver answers, the awaited calls to the push SDK settle, or the application
  calls \<open>login\<close>, \<open>logout\<close> or \<open>refreshAuth\<close>. On mount the provider
  subscribes and calls \<open>loadAuthFromStorage\<close>.
\<close>

datatype action =
    AuthStateChanged "firebase_user option"
  | ResolverReplied resolver_outcome nat bool
  | PushSdkSettled
  | Login session_user string
  | Logout
  | RefreshAuth

fun step :: "platform \<Rightarrow> auth_state \<Rightarrow> action \<Rightarrow> auth_state" where
  "step E s (AuthStateChanged notified) = onAuthStateChanged s notified"
| "step E s (ResolverReplied out r pushSdk) = resolverReplied E s out r pushSdk"
| "step E s PushSdkSettled = pushSdkSettled s"
| "step E s (Login u t) = login E s u t"
| "step E s Logout = logout s"
| "step E s RefreshAuth = refreshAuth E s"

definition mounted :: "platform \<Rightarrow> storage \<Rightarrow> auth_state" where
  "mounted E ls = loadAuthFromStorage E (initial ls)"

definition run :: "platform \<Rightarrow> storage \<Rightarrow> action list \<Rightarrow> auth_state" where
  "run E ls acts = foldl (step E) (mounted E ls) acts"

subsection \<open>The phone number normalization as specified\<close>

text \<open>
  The normalization as the specification words it: the leading country code removed,
  then a remaining leading plus sign, then whitespace; nothing else.
\<close>

definition normalize_as_specified :: "string \<Rightarrow> string" where
  "normalize_as_specified phone =
     filter (\<lambda>c. \<not> is_space c) (strip_prefix ''+'' (strip_prefix ''+91'' phone))"

subsection \<open>Example inputs of the client\<close>

definition example_user :: session_user where
  "example_user = userById (phone_request ''+919876543210'') example_employee"

text \<open>A stand-in codec for the examples: exact on the example user.\<close>

definition example_platform :: platform where
  "example_platform =
     \<lparr>json_stringify = (\<lambda>u. ''{uid:'' @ uid u @ ''}''),
      json_parse = (\<lambda>s. if s = ''{uid:HR-EMP-00001}'' then Parsed example_user
                         else if s = ''null'' then ParsedNull else ParseError)\<rparr>"

definition example_principal :: firebase_user where
  "example_principal =
     \<lparr>fb_email = None, fb_phoneNumber = Some ''+919876543210'', providerData = [''phone'']\<rparr>"

text \<open>
  The guard and the suspended callback agree: \<open>isProcessingRef\<close> is set exactly
  while a callback is suspended, and then \<open>firebaseUser\<close> is a principal, the one
  of the transition that awaits the resolver.
\<close>

definition consistent :: "auth_state \<Rightarrow> bool" where
  "consistent s =
     (if isProcessingRef s
      then inflight s \<noteq> None \<and> firebaseUser s \<noteq> None
           \<and> (awaited s = None \<or> firebaseUser s = map_option p_user (awaited s))
      else inflight s = None)"

section \<open>Properties of the server resolver\<close>


lemma novu_irrelevant_phoneSearch:
  "phoneSearch (env\<lparr>novu_create := c, novu_update := u, novu_credentials := k\<rparr>) req
     = phoneSearch env req"
  by (simp add: phoneSearch_def Let_def split: option.splits)

lemma novu_irrelevant_fetchUserData:
  "fetchUserData (env\<lparr>novu_create := c, novu_update := u, novu_credentials := k\<rparr>) req i v
     = fetchUserData env req i v"
  by (simp add: fetchUserData_def fetchById_def searchByEmail_def split: option.splits)

lemma novu_irrelevant_mintToken:
  "mintToken (env\<lparr>novu_create := c, novu_update := u, novu_credentials := k\<rparr>) userData
     = mintToken env userData"
  by (simp add: mintToken_def)

lemma novu_irrelevant_directoryLookup:
  "directoryLookup (env\<lparr>novu_create := c, novu_update := u, novu_credentials := k\<rparr>) req
     = directoryLookup env req"
  unfolding directoryLookup_def novu_irrelevant_phoneSearch
  by (simp add: novu_irrelevant_fetchUserData split: prod.splits flow.splits)

lemma resolved_reply:
  assumes "rq_method req = ''POST''" "truthy (rq_email req) \<or> truthy (rq_phoneNumber req)"
    "configured env" "directoryLookup env req = Some (userData, userSource)"
  shows "fst (handler env req)
           = \<lparr>http_status = 200, json = Success userData (mintToken env userData) userSource\<rparr>"
  using assms
  by (auto simp: handler_def resolve_def configured_def directoryLookup_def
           split: prod.splits flow.splits option.splits)



lemma cleaned_example: "cleanedPhoneNumber ''+919876543210'' = ''9876543210''"
  by (simp add: cleanedPhoneNumber_def strip_prefix_def)

text \<open>
  Claim C7. A POST request whose body has neither an email nor a phone number (absent, or
  the empty string, which the check \<open>!email && !phoneNumber\<close> treats alike) is answered
  with 400, and the invocation makes no outbound call at all, so no directory lookup.
\<close>

theorem handler_rejects_missing_email_and_phone:
  assumes "rq_method req = ''POST''"
    and "\<not> truthy (rq_email req)" and "\<not> truthy (rq_phoneNumber req)"
  shows "fst (handler env req)
           = \<lparr>http_status = 400, json = ErrorOnly ''Email or phone number is required''\<rparr>
       \<and> snd (handler env req) = []
       \<and> filter is_erp_call (snd (handler env req)) = []"
  using assms by (simp add: handler_def)

theorem handler_rejects_missing_email_and_phone_witness:
  "http_status (fst (handler (directory [example_employee] example_env)
      \<lparr>rq_method = ''POST'', rq_email = None, rq_phoneNumber = None,
       rq_authProvider = Some ''phone'', oneSignalPlayerId = None,
       oneSignalSubscriptionId = None\<rparr>)) = 400
   \<and> snd (handler (directory [example_employee] example_env)
      \<lparr>rq_method = ''POST'', rq_email = None, rq_phoneNumber = None,
       rq_authProvider = Some ''phone'', oneSignalPlayerId = None,
       oneSignalSubscriptionId = None\<rparr>) = []"
  using handler_rejects_missing_email_and_phone
          [of "\<lparr>rq_method = ''POST'', rq_email = None, rq_phoneNumber = None,
                rq_authProvider = Some ''phone'', oneSignalPlayerId = None,
                oneSignalSubscriptionId = None\<rparr>"
              "directory [example_employee] example_env"]
  by (simp add: truthy_def)

text \<open>
  Claim C6. For a phone-only POST request to a configured resolver, when the search by
  the cleaned cell number answers with no record, the response is 403 "Access Denied"
  with the machine-readable reason \<open>userSource = phone_not_found\<close>; it carries no Session
  User, and the only outbound call is the search: no fetch by identifier is made.
\<close>

theorem phone_not_found_is_denied:
  assumes "rq_method req = ''POST''" and "configured env"
    and "rq_phoneNumber req = Some phone" and "phone \<noteq> []" and "\<not> truthy (rq_email req)"
    and "erp_search_cell env (cleanedPhoneNumber phone) = Response st []" and "ok st"
  shows "fst (handler env req)
           = \<lparr>http_status = 403,
               json = AccessDenied
                 ''Phone number not found in organization. Please contact your administrator.''
                 \<lparr>searchedPhone = Some phone, searchedEmail = None, d_employeeId = None,
                  d_authProvider = rq_authProvider req, d_userSource = ''phone_not_found'',
                  d_status = None\<rparr>\<rparr>
       \<and> filter is_fetch_by_id (snd (handler env req)) = []
       \<and> filter is_erp_call (snd (handler env req)) = [ErpSearchByCell (cleanedPhoneNumber phone)]"
  using assms
  by (simp add: handler_def resolve_def phoneSearch_def configured_def truthy_def
        no_details_def denied_def)

theorem phone_not_found_is_denied_witness:
  "http_status (fst (handler (directory [example_employee] example_env)
                       (phone_request ''+919000000000''))) = 403
   \<and> filter is_fetch_by_id (snd (handler (directory [example_employee] example_env)
                       (phone_request ''+919000000000''))) = []"
  using phone_not_found_is_denied
          [of "phone_request ''+919000000000''" "directory [example_employee] example_env"
              "''+919000000000''" 200]
  by (simp add: phone_request_def directory_def example_env_def example_employee_def
        configured_def truthy_def ok_def cleanedPhoneNumber_def strip_prefix_def)





text \<open>
  Claim C3. When the directory lookup of a POST request resolves a record (a valid active
  employee: \<open>directoryLookup\<close> gives its Session User and lookup path), the response is
  200 with that Session User and its Session Token whatever the three notification calls
  answer: subscriber create \<open>c\<close>, subscriber update \<open>u\<close> and credentials update
  \<open>k\<close> range over every response and every exception. And a create answered with 409
  is handled exactly as a create that succeeded: no warning, and the update follows.
\<close>

theorem novu_failure_never_changes_response:
  assumes "rq_method req = ''POST''" and "truthy (rq_email req) \<or> truthy (rq_phoneNumber req)"
    and "configured env" and "directoryLookup env req = Some (userData, userSource)"
  shows "fst (handler (env\<lparr>novu_create := c, novu_update := u, novu_credentials := k\<rparr>) req)
           = \<lparr>http_status = 200,
               json = Success userData (mintToken env userData) userSource\<rparr>
       \<and> createOrUpdateNovuSubscriber (env\<lparr>novu_create := Response 409 t\<rparr>) p key
           = createOrUpdateNovuSubscriber (env\<lparr>novu_create := Response 200 t'\<rparr>) p key"
proof -
  let ?env = "env\<lparr>novu_create := c, novu_update := u, novu_credentials := k\<rparr>"
  have "directoryLookup ?env req = Some (userData, userSource)"
    using assms(4) by (simp only: novu_irrelevant_directoryLookup)
  moreover have "configured ?env"
    using assms(3) by (simp add: configured_def)
  ultimately have "fst (handler ?env req)
      = \<lparr>http_status = 200, json = Success userData (mintToken ?env userData) userSource\<rparr>"
    using assms(1,2) resolved_reply by blast
  then show ?thesis
    by (simp add: novu_irrelevant_mintToken createOrUpdateNovuSubscriber_def ok_def)
qed

theorem novu_failure_never_changes_response_witness:
  "http_status (fst (handler
      ((directory [example_employee] example_env)
         \<lparr>novu_create := Response 500 ''down'', novu_update := Throws ''timeout'',
          novu_credentials := Throws ''rejected''\<rparr>)
      ((phone_request ''+919876543210'')\<lparr>oneSignalPlayerId := Some ''player-1''\<rparr>))) = 200"
proof -
  have "directoryLookup (directory [example_employee] example_env)
          ((phone_request ''+919876543210'')\<lparr>oneSignalPlayerId := Some ''player-1''\<rparr>)
        = Some (userById ((phone_request ''+919876543210'')\<lparr>oneSignalPlayerId := Some ''player-1''\<rparr>)
                  example_employee, ''employee_by_id'')"
    by (simp add: directoryLookup_def phoneSearch_def fetchUserData_def fetchById_def
          directory_def example_env_def example_employee_def phone_request_def
          cleaned_example truthy_def ok_def)
  moreover have "rq_method ((phone_request ''+919876543210'')\<lparr>oneSignalPlayerId := Some ''player-1''\<rparr>)
                   = ''POST''"
    by (simp add: phone_request_def)
  moreover have "truthy (rq_email ((phone_request ''+919876543210'')\<lparr>oneSignalPlayerId := Some ''player-1''\<rparr>))
      \<or> truthy (rq_phoneNumber ((phone_request ''+919876543210'')\<lparr>oneSignalPlayerId := Some ''player-1''\<rparr>))"
    by (simp add: phone_request_def truthy_def)
  moreover have "configured (directory [example_employee] example_env)"
    by (simp add: example_env_def directory_def configured_def truthy_def)
  ultimately show ?thesis
    using novu_failure_never_changes_response
            [where req = "(phone_request ''+919876543210'')\<lparr>oneSignalPlayerId := Some ''player-1''\<rparr>"
               and env = "directory [example_employee] example_env"
               and userData = "userById ((phone_request ''+919876543210'')\<lparr>oneSignalPlayerId := Some ''player-1''\<rparr>)
                   example_employee"
               and userSource = "''employee_by_id''"
               and c = "Response 500 ''down''" and u = "Throws ''timeout''"
               and k = "Throws ''rejected''"]
    by simp
qed

section \<open>Properties of the client observer\<close>

subsection \<open>Local storage after each operation\<close>

lemma removeItems_apply: "removeItems ks ls k = (if k \<in> set ks then None else ls k)"
  unfolding removeItems_def
  by (induction ks arbitrary: ls) (auto simp: removeItem_def)

lemma setItems_apply:
  "setItems kvs ls k = (case map_of (rev kvs) k of Some v \<Rightarrow> Some v | None \<Rightarrow> ls k)"
  unfolding setItems_def
  by (induction kvs arbitrary: ls) (auto simp: setItem_def split: option.splits)

lemma present_all:
  "present_keys ls = documented_keys \<longleftrightarrow> (\<forall>k \<in> set documented_keys. ls k \<noteq> None)"
  by (simp add: present_keys_def filter_id_conv)

lemma mounted_empty: "mounted E Map.empty = initial Map.empty"
  by (simp add: mounted_def loadAuthFromStorage_def loadPhoneAndProvider_def Let_def truthy_def
        initial_def)

lemma signedIn_phone:
  assumes "\<not> isProcessingRef s" and "truthy (fb_phoneNumber fbUser)"
  shows "localStorage (onAuthStateChanged s (Some fbUser))
           = setItems [(''userPhoneNumber'', js_string (cleanPhoneNumber (fb_phoneNumber fbUser))),
                       (''authProvider'', providerOf fbUser)] (localStorage s)"
    and "awaited (onAuthStateChanged s (Some fbUser)) \<noteq> None"
    and "isProcessingRef (onAuthStateChanged s (Some fbUser))"
  using assms by (simp_all add: onAuthStateChanged_def signedIn_def Let_def awaited_def)

lemma signedOut_storage:
  assumes "\<not> isProcessingRef s"
  shows "localStorage (onAuthStateChanged s None) = removeItems signed_out_keys (localStorage s)"
    and "inflight (onAuthStateChanged s None) = None"
    and "\<not> isProcessingRef (onAuthStateChanged s None)"
  using assms by (simp_all add: onAuthStateChanged_def signedOut_def finallyBlock_def)

lemma awaited_Some: "awaited s = Some p \<longleftrightarrow> inflight s = Some (AwaitingResolver p)"
  by (simp add: awaited_def split: option.splits suspended.splits)

lemma resolverReplied_storage:
  assumes "awaited s = Some p"
  shows "localStorage (resolverReplied E s (Resolved u t src) r pushSdk)
           = setItems
               [(''erpnextAuthToken'', t),
                (''erpnextUser'', json_stringify E u),
                (''authType'', ''erpnext''),
                (''authProvider'', p_provider p),
                (''authMethod'', if p_provider p = ''phone'' then ''phone'' else ''microsoft''),
                (''employeeId'', employeeIdOf u),
                (''userEmail'', js_string (email u)),
                (''userDisplayName'', displayName u),
                (''userRole'', role u),
                (''userPhoneNumber'', js_string (or_else (phoneNumber u) (Some []))),
                (''userAvatar'', generateAvatarSvg r (firstLetterOf u)),
                (''userInitial'', firstLetterOf u),
                (''klyRoleId'', js_string (or_else (u_kly_role_id u) (Some ''null'')))]
               (localStorage s)"
    and "localStorage (resolverReplied E s (Failed st) r pushSdk)
           = removeItems failed_keys (localStorage s)"
    and "localStorage (resolverReplied E s Threw r pushSdk)
           = removeItems error_keys (localStorage s)"
  using assms by (simp_all add: awaited_Some resolverReplied_def finallyBlock_def Let_def)

lemma resolverReplied_released:
  assumes "awaited s = Some p" and "\<not> (is_resolved out \<and> pushSdk)"
  shows "inflight (resolverReplied E s out r pushSdk) = None"
    and "\<not> isProcessingRef (resolverReplied E s out r pushSdk)"
  using assms
  by (cases out; simp add: awaited_Some resolverReplied_def finallyBlock_def Let_def)+

lemma resolverReplied_push:
  assumes "awaited s = Some p"
  shows "inflight (resolverReplied E s (Resolved u t src) r True) = Some AwaitingPushSdk"
  using assms by (simp add: awaited_Some resolverReplied_def Let_def)

lemma pushSdkSettled_released:
  assumes "inflight s = Some AwaitingPushSdk"
  shows "localStorage (pushSdkSettled s) = localStorage s"
    and "inflight (pushSdkSettled s) = None"
    and "\<not> isProcessingRef (pushSdkSettled s)"
  using assms by (simp_all add: pushSdkSettled_def finallyBlock_def)

lemma logout_storage:
  "localStorage (logout s) = removeItems logout_keys (localStorage s)"
  "inflight (logout s) = inflight s"
  "isProcessingRef (logout s) = isProcessingRef s"
  by (simp_all add: logout_def)

text \<open>A successful resolution writes all nine documented keys.\<close>

lemma resolved_sets_documented_keys:
  assumes "awaited s \<noteq> None"
  shows "present_keys (localStorage (resolverReplied E s (Resolved u t src) r pushSdk))
           = documented_keys"
proof -
  from assms obtain p where "awaited s = Some p" by auto
  then show ?thesis
    by (simp add: resolverReplied_storage(1) present_keys_def documented_keys_def setItems_apply)
qed

text \<open>
  What each clearing path leaves of the nine keys: \<open>logout\<close> leaves three, the
  signed-out branch two, a response that is not OK (403 included) five; only the
  \<open>catch\<close> branch of the resolution removes them all.
\<close>

lemma logout_keeps:
  "present_keys (localStorage (logout s))
     = filter (\<lambda>k. localStorage s k \<noteq> None) [''authType'', ''userAvatar'', ''userInitial'']"
  by (simp add: logout_storage present_keys_def documented_keys_def removeItems_apply logout_keys_def)

lemma signed_out_keeps:
  "\<not> isProcessingRef s \<Longrightarrow>
   present_keys (localStorage (onAuthStateChanged s None))
     = filter (\<lambda>k. localStorage s k \<noteq> None) [''userAvatar'', ''userInitial'']"
  by (simp add: signedOut_storage present_keys_def documented_keys_def removeItems_apply
        signed_out_keys_def)

lemma failed_keeps:
  assumes "awaited s \<noteq> None"
  shows "present_keys (localStorage (resolverReplied E s (Failed st) r pushSdk))
     = filter (\<lambda>k. localStorage s k \<noteq> None)
         [''userPhoneNumber'', ''authProvider'', ''authType'', ''userAvatar'', ''userInitial'']"
proof -
  from assms obtain p where "awaited s = Some p" by auto
  then show ?thesis
    by (simp add: resolverReplied_storage(2) present_keys_def documented_keys_def
          removeItems_apply failed_keys_def)
qed

lemma threw_clears:
  assumes "awaited s \<noteq> None"
  shows "present_keys (localStorage (resolverReplied E s Threw r pushSdk)) = []"
proof -
  from assms obtain p where "awaited s = Some p" by auto
  then show ?thesis
    by (simp add: resolverReplied_storage(3) present_keys_def documented_keys_def
          removeItems_apply error_keys_def)
qed

subsection \<open>The guard and the transition in flight\<close>

lemma loadPhoneAndProvider_frame:
  "isProcessingRef (loadPhoneAndProvider s) = isProcessingRef s"
  "inflight (loadPhoneAndProvider s) = inflight s"
  "firebaseUser (loadPhoneAndProvider s) = firebaseUser s"
  "user (loadPhoneAndProvider s) = user s"
  "token (loadPhoneAndProvider s) = token s"
  "localStorage (loadPhoneAndProvider s) = localStorage s"
  by (simp_all add: loadPhoneAndProvider_def Let_def)

lemma loadAuthFromStorage_frame:
  "isProcessingRef (loadAuthFromStorage E s) = isProcessingRef s"
  "inflight (loadAuthFromStorage E s) = inflight s"
  "firebaseUser (loadAuthFromStorage E s) = firebaseUser s"
  by (simp_all add: loadAuthFromStorage_def Let_def loadPhoneAndProvider_frame
        split: parsed.splits)

lemma consistent_frame:
  assumes "isProcessingRef s' = isProcessingRef s" and "inflight s' = inflight s"
    and "firebaseUser s' = firebaseUser s"
  shows "consistent s' = consistent s"
  using assms by (simp add: consistent_def awaited_def)

lemma consistent_initial: "consistent (initial ls)"
  by (simp add: consistent_def initial_def)

lemma consistent_loadAuthFromStorage: "consistent s \<Longrightarrow> consistent (loadAuthFromStorage E s)"
  by (simp add: consistent_frame [of "loadAuthFromStorage E s" s] loadAuthFromStorage_frame)

lemma consistent_onAuthStateChanged:
  assumes "consistent s"
  shows "consistent (onAuthStateChanged s n)"
proof (cases "isProcessingRef s")
  case True
  then show ?thesis
    using assms by (simp add: onAuthStateChanged_def)
next
  case False
  then show ?thesis
    by (cases n)
       (simp_all add: consistent_def awaited_def onAuthStateChanged_def signedIn_def
          signedOut_def finallyBlock_def Let_def)
qed

lemma consistent_resolverReplied:
  "consistent s \<Longrightarrow> consistent (resolverReplied E s out r pushSdk)"
  by (auto simp: consistent_def awaited_def resolverReplied_def finallyBlock_def Let_def
        split: option.splits suspended.splits resolver_outcome.splits if_splits)

lemma consistent_pushSdkSettled: "consistent s \<Longrightarrow> consistent (pushSdkSettled s)"
  by (auto simp: consistent_def awaited_def pushSdkSettled_def finallyBlock_def
        split: option.splits suspended.splits if_splits)

lemma consistent_login: "consistent s \<Longrightarrow> consistent (login E s u t)"
  using consistent_frame [of "login E s u t" s] by (simp add: login_def)

lemma consistent_logout: "consistent s \<Longrightarrow> consistent (logout s)"
  using consistent_frame [of "logout s" s] by (simp add: logout_def)

lemma consistent_step: "consistent s \<Longrightarrow> consistent (step E s a)"
  by (cases a)
     (simp_all add: consistent_onAuthStateChanged consistent_resolverReplied consistent_login
        consistent_logout consistent_loadAuthFromStorage consistent_pushSdkSettled
        refreshAuth_def)

lemma consistent_foldl: "consistent s \<Longrightarrow> consistent (foldl (step E) s acts)"
  by (induction acts arbitrary: s) (simp_all add: consistent_step)

lemma consistent_run: "consistent (run E ls acts)"
  by (simp add: run_def mounted_def consistent_foldl consistent_loadAuthFromStorage
        consistent_initial)

lemma resolverReplied_presence:
  assumes "awaited s \<noteq> None"
  shows "(user (resolverReplied E s out r pushSdk) \<noteq> None \<longleftrightarrow> is_resolved out)
       \<and> (token (resolverReplied E s out r pushSdk) \<noteq> None \<longleftrightarrow> is_resolved out)
       \<and> firebaseUser (resolverReplied E s out r pushSdk) = firebaseUser s"
proof -
  from assms obtain p where "inflight s = Some (AwaitingResolver p)"
    by (auto simp: awaited_Some)
  then show ?thesis
    by (cases out) (simp_all add: resolverReplied_def finallyBlock_def Let_def)
qed

lemma pushSdkSettled_frame:
  "user (pushSdkSettled s) = user s" "token (pushSdkSettled s) = token s"
  "firebaseUser (pushSdkSettled s) = firebaseUser s"
  by (simp_all add: pushSdkSettled_def finallyBlock_def split: option.splits suspended.splits)

lemma signed_out_processed:
  assumes "\<not> isProcessingRef s"
  shows "user (onAuthStateChanged s None) = None \<and> token (onAuthStateChanged s None) = None
       \<and> firebaseUser (onAuthStateChanged s None) = None
       \<and> \<not> isProcessingRef (onAuthStateChanged s None)"
  using assms by (simp add: onAuthStateChanged_def signedOut_def finallyBlock_def)

subsection \<open>Characters kept by the server's cleaning\<close>

lemma set_strip_prefix: "set (strip_prefix p s) \<subseteq> set s"
  by (simp add: strip_prefix_def set_drop_subset)

lemma no_space_kept:
  assumes "\<forall>c \<in> set phone. \<not> is_space c"
  shows "filter (\<lambda>c. \<not> is_space c) (cleanedPhoneNumber phone) = cleanedPhoneNumber phone"
proof -
  have "set (cleanedPhoneNumber phone) \<subseteq> set phone"
    unfolding cleanedPhoneNumber_def
    using set_strip_prefix [of "''+''" "strip_prefix ''+91'' phone"]
      set_strip_prefix [of "''+91''" phone]
    by blast
  with assms have "\<forall>c \<in> set (cleanedPhoneNumber phone). \<not> is_space c"
    by blast
  then show ?thesis
    by (simp add: filter_id_conv)
qed

subsection \<open>Claims about the client observer\<close>

text \<open>
  Claim C1, as stated, fails: \<open>login\<close> sets the Session User from its arguments, and
  \<open>loadAuthFromStorage\<close> on mount sets it from local storage, while the identity
  provider has reported no principal (\<open>firebaseUser\<close> is \<open>null\<close>).
\<close>

theorem session_user_without_principal:
  "user (login example_platform (mounted example_platform Map.empty) example_user ''tok'')
     = Some example_user
   \<and> firebaseUser (login example_platform (mounted example_platform Map.empty) example_user ''tok'')
     = None
   \<and> user (mounted example_platform
        [''erpnextAuthToken'' \<mapsto> ''tok'', ''erpnextUser'' \<mapsto> ''{uid:HR-EMP-00001}'',
         ''authType'' \<mapsto> ''erpnext'']) = Some example_user
   \<and> firebaseUser (mounted example_platform
        [''erpnextAuthToken'' \<mapsto> ''tok'', ''erpnextUser'' \<mapsto> ''{uid:HR-EMP-00001}'',
         ''authType'' \<mapsto> ''erpnext'']) = None"
  by (simp add: login_def mounted_def loadAuthFromStorage_def loadPhoneAndProvider_def initial_def
        Let_def truthy_def example_platform_def js_string_def)

text \<open>
  Claim C1, amended. In every state the provider can reach, when the observer finishes
  processing a notification the invariant holds: after a signed-out notification there is
  no Session User, no Session Token and no principal; after the resolver's answer to a
  signed-in notification the principal of that notification is the reported one, and a
  Session User is present if and only if a Session Token is present, if and only if the
  resolver answered with the user (a 2xx response); the end of the callback after the
  push SDK calls changes neither. \<open>login\<close> and \<open>loadAuthFromStorage\<close> are
  outside this: they set the Session User without consulting the identity provider.
\<close>

theorem session_user_after_processed_notification:
  assumes "s = run E ls acts"
  shows "(\<not> isProcessingRef s \<longrightarrow>
            user (step E s (AuthStateChanged None)) = None
          \<and> token (step E s (AuthStateChanged None)) = None
          \<and> firebaseUser (step E s (AuthStateChanged None)) = None)
       \<and> (awaited s \<noteq> None \<longrightarrow>
            firebaseUser (step E s (ResolverReplied out r pushSdk)) = map_option p_user (awaited s)
          \<and> (user (step E s (ResolverReplied out r pushSdk)) \<noteq> None \<longleftrightarrow> is_resolved out)
          \<and> (token (step E s (ResolverReplied out r pushSdk)) \<noteq> None \<longleftrightarrow> is_resolved out)
          \<and> user (step E (step E s (ResolverReplied out r pushSdk)) PushSdkSettled)
              = user (step E s (ResolverReplied out r pushSdk))
          \<and> token (step E (step E s (ResolverReplied out r pushSdk)) PushSdkSettled)
              = token (step E s (ResolverReplied out r pushSdk)))"
proof -
  have c: "consistent s"
    using assms by (simp add: consistent_run)
  have idle: "user (step E s (AuthStateChanged None)) = None
          \<and> token (step E s (AuthStateChanged None)) = None
          \<and> firebaseUser (step E s (AuthStateChanged None)) = None"
    if "\<not> isProcessingRef s"
    using signed_out_processed [OF that] by simp
  have answered: "firebaseUser (step E s (ResolverReplied out r pushSdk))
            = map_option p_user (awaited s)
          \<and> (user (step E s (ResolverReplied out r pushSdk)) \<noteq> None \<longleftrightarrow> is_resolved out)
          \<and> (token (step E s (ResolverReplied out r pushSdk)) \<noteq> None \<longleftrightarrow> is_resolved out)"
    if a: "awaited s \<noteq> None"
  proof -
    from a have "inflight s \<noteq> None"
      by (auto simp: awaited_Some)
    with c have "isProcessingRef s"
      by (simp add: consistent_def split: if_splits)
    with c a have "firebaseUser s = map_option p_user (awaited s)"
      by (simp add: consistent_def)
    then show ?thesis
      using resolverReplied_presence [OF a, of E out r pushSdk] by simp
  qed
  show ?thesis
    using idle answered by (simp add: pushSdkSettled_frame)
qed

theorem session_user_after_processed_notification_witness:
  "user (step example_platform
           (run example_platform Map.empty [AuthStateChanged (Some example_principal)])
           (ResolverReplied (Resolved example_user ''tok'' ''employee_by_id'') 0 True)) \<noteq> None
   \<and> token (step example_platform
           (run example_platform Map.empty [AuthStateChanged (Some example_principal)])
           (ResolverReplied (Resolved example_user ''tok'' ''employee_by_id'') 0 True)) \<noteq> None
   \<and> user (step example_platform (run example_platform Map.empty []) (AuthStateChanged None))
       = None"
proof -
  have a: "awaited (run example_platform Map.empty [AuthStateChanged (Some example_principal)])
             \<noteq> None"
    by (simp add: run_def mounted_empty initial_def onAuthStateChanged_def signedIn_def Let_def
          awaited_def)
  have b: "\<not> isProcessingRef (run example_platform Map.empty [])"
    by (simp add: run_def mounted_empty initial_def)
  note th1 = session_user_after_processed_notification
        [OF refl, where E = example_platform and ls = Map.empty
           and acts = "[AuthStateChanged (Some example_principal)]"
           and out = "Resolved example_user ''tok'' ''employee_by_id''" and r = 0
           and pushSdk = True]
  note th2 = session_user_after_processed_notification
        [OF refl, where E = example_platform and ls = Map.empty and acts = "[]"]
  from th1 a have
    "(user (step example_platform
           (run example_platform Map.empty [AuthStateChanged (Some example_principal)])
           (ResolverReplied (Resolved example_user ''tok'' ''employee_by_id'') 0 True)) \<noteq> None)
      = is_resolved (Resolved example_user ''tok'' ''employee_by_id'')"
    and "(token (step example_platform
           (run example_platform Map.empty [AuthStateChanged (Some example_principal)])
           (ResolverReplied (Resolved example_user ''tok'' ''employee_by_id'') 0 True)) \<noteq> None)
      = is_resolved (Resolved example_user ''tok'' ''employee_by_id'')"
    by blast+
  moreover from th2 b have
    "user (step example_platform (run example_platform Map.empty []) (AuthStateChanged None))
       = None"
    by blast
  ultimately show ?thesis
    by simp
qed

text \<open>
  Claim C2. The first half holds (\<open>resolved_sets_documented_keys\<close>); the second does
  not. After a sign-in with a phone principal that resolves, all nine documented keys are
  set. A \<open>logout\<close> then leaves \<open>authType\<close>, \<open>userAvatar\<close> and \<open>userInitial\<close>;
  once the signed-out notification is processed as well, \<open>userAvatar\<close> and
  \<open>userInitial\<close> still remain. A later sign-in answered with 403 leaves five of the nine
  keys. Only the \<open>catch\<close> branch of the resolution, taken when the request throws,
  removes all nine.
\<close>

theorem storage_keys_left_after_logout_and_denial:
  "present_keys (localStorage (run example_platform Map.empty
      [AuthStateChanged (Some example_principal),
       ResolverReplied (Resolved example_user ''tok'' ''employee_by_id'') 3 True, PushSdkSettled]))
       = documented_keys
   \<and> present_keys (localStorage (run example_platform Map.empty
      [AuthStateChanged (Some example_principal),
       ResolverReplied (Resolved example_user ''tok'' ''employee_by_id'') 3 True, PushSdkSettled,
       Logout])) = [''authType'', ''userAvatar'', ''userInitial'']
   \<and> present_keys (localStorage (run example_platform Map.empty
      [AuthStateChanged (Some example_principal),
       ResolverReplied (Resolved example_user ''tok'' ''employee_by_id'') 3 True, PushSdkSettled,
       Logout, AuthStateChanged None])) = [''userAvatar'', ''userInitial'']
   \<and> present_keys (localStorage (run example_platform Map.empty
      [AuthStateChanged (Some example_principal),
       ResolverReplied (Resolved example_user ''tok'' ''employee_by_id'') 3 True, PushSdkSettled,
       AuthStateChanged (Some example_principal),
       ResolverReplied (Failed 403) 0 True]))
       = [''userPhoneNumber'', ''authProvider'', ''authType'', ''userAvatar'', ''userInitial'']
   \<and> present_keys (localStorage (run example_platform Map.empty
      [AuthStateChanged (Some example_principal),
       ResolverReplied (Resolved example_user ''tok'' ''employee_by_id'') 3 True, PushSdkSettled,
       AuthStateChanged (Some example_principal),
       ResolverReplied Threw 0 True])) = []"
proof -
  let ?E = example_platform
  define s1 where "s1 = onAuthStateChanged (mounted ?E Map.empty) (Some example_principal)"
  define s2 where
    "s2 = resolverReplied ?E s1 (Resolved example_user ''tok'' ''employee_by_id'') 3 True"
  define s3 where "s3 = pushSdkSettled s2"
  define s4 where "s4 = onAuthStateChanged s3 (Some example_principal)"
  have idle0: "\<not> isProcessingRef (mounted ?E Map.empty)"
    by (simp add: mounted_empty initial_def)
  have phone: "truthy (fb_phoneNumber example_principal)"
    by (simp add: example_principal_def truthy_def)
  have busy1: "awaited s1 \<noteq> None"
    unfolding s1_def using idle0 phone by (rule signedIn_phone(2))
  then obtain p where p: "awaited s1 = Some p"
    by auto
  have all2: "present_keys (localStorage s2) = documented_keys"
    unfolding s2_def using busy1 by (rule resolved_sets_documented_keys)
  have push2: "inflight s2 = Some AwaitingPushSdk"
    unfolding s2_def using p by (rule resolverReplied_push)
  have all3: "present_keys (localStorage s3) = documented_keys"
    unfolding s3_def using all2 by (simp add: pushSdkSettled_released(1) [OF push2])
  then have set3: "\<forall>k \<in> set documented_keys. localStorage s3 k \<noteq> None"
    by (simp only: present_all)
  have idle3: "\<not> isProcessingRef s3"
    unfolding s3_def using push2 by (rule pushSdkSettled_released(3))
  have out: "present_keys (localStorage (logout s3)) = [''authType'', ''userAvatar'', ''userInitial'']"
    using set3 by (simp add: logout_keeps documented_keys_def)
  have idle_out: "\<not> isProcessingRef (logout s3)"
    using idle3 by (simp add: logout_storage)
  have gone: "present_keys (localStorage (onAuthStateChanged (logout s3) None))
                = [''userAvatar'', ''userInitial'']"
    using set3 idle_out
    by (simp add: signed_out_keeps logout_storage removeItems_apply logout_keys_def
          documented_keys_def)
  have busy4: "awaited s4 \<noteq> None"
    unfolding s4_def using idle3 phone by (rule signedIn_phone(2))
  have ls4: "localStorage s4 k \<noteq> None" if "localStorage s3 k \<noteq> None" for k
    unfolding s4_def using that
    by (simp add: signedIn_phone(1) [OF idle3 phone] setItems_apply)
  have denied: "present_keys (localStorage (resolverReplied ?E s4 (Failed 403) 0 True))
      = [''userPhoneNumber'', ''authProvider'', ''authType'', ''userAvatar'', ''userInitial'']"
    using set3 ls4 by (simp add: failed_keeps [OF busy4] documented_keys_def)
  have cleared: "present_keys (localStorage (resolverReplied ?E s4 Threw 0 True)) = []"
    using busy4 by (rule threw_clears)
  show ?thesis
    using all3 out gone denied cleared
    by (simp add: run_def s1_def s2_def s3_def s4_def)
qed

text \<open>
  Claim C8. A notification that arrives while \<open>isProcessingRef\<close> is set changes
  nothing at all: it is dropped and nothing of it is kept for later. So when a signed-in
  notification is in flight and a signed-out notification arrives, the state is the one
  before it; when the resolver then answers with the user, the Session User and Token are
  set, and they are still set when the callback ends and releases the guard; a
  notification after that is processed again (a signed-out one then clears the session).
\<close>

theorem notification_during_processing_is_dropped:
  "(isProcessingRef busy \<longrightarrow> step E busy (AuthStateChanged n) = busy)
   \<and> (\<not> isProcessingRef idle \<longrightarrow>
        (let s1 = step E idle (AuthStateChanged (Some fbUser));
             s2 = step E s1 (AuthStateChanged None);
             s3 = step E s2 (ResolverReplied (Resolved u t src) r pushSdk);
             s4 = step E s3 PushSdkSettled
         in isProcessingRef s1 \<and> s2 = s1
            \<and> user s3 = Some u \<and> token s3 = Some t
            \<and> user s4 = Some u \<and> token s4 = Some t \<and> \<not> isProcessingRef s4
            \<and> user (step E s4 (AuthStateChanged None)) = None))"
  by (cases pushSdk)
     (simp_all add: onAuthStateChanged_def signedIn_def Let_def resolverReplied_def
        pushSdkSettled_def finallyBlock_def signedOut_def)

theorem notification_during_processing_is_dropped_witness:
  "step example_platform
     (run example_platform Map.empty [AuthStateChanged (Some example_principal)])
     (AuthStateChanged None)
     = run example_platform Map.empty [AuthStateChanged (Some example_principal)]
   \<and> user (run example_platform Map.empty
        [AuthStateChanged (Some example_principal), AuthStateChanged None,
         ResolverReplied (Resolved example_user ''tok'' ''employee_by_id'') 0 True,
         PushSdkSettled])
       = Some example_user"
proof -
  have a: "isProcessingRef
             (run example_platform Map.empty [AuthStateChanged (Some example_principal)])"
    by (simp add: run_def mounted_empty initial_def onAuthStateChanged_def signedIn_def Let_def)
  have b: "\<not> isProcessingRef (mounted example_platform Map.empty)"
    by (simp add: mounted_empty initial_def)
  show ?thesis
    using a b
      notification_during_processing_is_dropped
        [where E = example_platform
           and busy = "run example_platform Map.empty [AuthStateChanged (Some example_principal)]"
           and n = None and idle = "mounted example_platform Map.empty"
           and fbUser = example_principal and u = example_user and t = "''tok''"
           and src = "''employee_by_id''" and r = 0 and pushSdk = True]
    by (auto simp: run_def Let_def)
qed

text \<open>
  Claim C9, as stated, fails twice. The client also removes a leading 91 from a number
  that is longer than ten characters after cleaning: \<open>919876543210\<close> becomes
  \<open>9876543210\<close>, where the normalization as worded leaves it unchanged. And client
  and server disagree on a number with whitespace, which only the client removes.
\<close>

theorem cleanPhoneNumber_differs_from_specified:
  "cleanPhoneNumber (Some ''919876543210'') = Some ''9876543210''
   \<and> normalize_as_specified ''919876543210'' = ''919876543210''
   \<and> cleanPhoneNumber (Some ''+91 98765 43210'') = Some ''9876543210''
   \<and> cleanedPhoneNumber ''+91 98765 43210'' = '' 98765 43210''"
  by (simp add: cleanPhoneNumber_def normalize_as_specified_def cleanedPhoneNumber_def
        strip_prefix_def is_space_def Let_def)

text \<open>
  Claim C9, amended. For every non-empty phone number the client's normalization is the
  specified one (leading \<open>+91\<close> removed, then a remaining leading \<open>+\<close>, then
  whitespace) followed by one more step: a leading \<open>91\<close> is removed when the result
  is longer than ten characters. The specified normalization is the server's followed by
  the removal of whitespace, which the server does not do. Client and server agree, and
  both give the specified normalization, on every number without whitespace whose
  server-cleaned form does not both start with \<open>91\<close> and exceed ten characters.
\<close>

theorem cleanPhoneNumber_normalization:
  assumes "phone \<noteq> []"
  shows "cleanPhoneNumber (Some phone)
           = Some (let n = normalize_as_specified phone
                   in if take 2 n = ''91'' \<and> length n > 10 then drop 2 n else n)
       \<and> normalize_as_specified phone = filter (\<lambda>c. \<not> is_space c) (cleanedPhoneNumber phone)
       \<and> ((\<forall>c \<in> set phone. \<not> is_space c)
            \<and> \<not> (take 2 (cleanedPhoneNumber phone) = ''91''
                  \<and> length (cleanedPhoneNumber phone) > 10)
          \<longrightarrow> cleanPhoneNumber (Some phone) = Some (cleanedPhoneNumber phone)
            \<and> cleanPhoneNumber (Some phone) = Some (normalize_as_specified phone))"
proof -
  have a: "cleanPhoneNumber (Some phone)
           = Some (let n = normalize_as_specified phone
                   in if take 2 n = ''91'' \<and> length n > 10 then drop 2 n else n)"
    using assms by (simp add: cleanPhoneNumber_def normalize_as_specified_def Let_def)
  have b: "normalize_as_specified phone
             = filter (\<lambda>c. \<not> is_space c) (cleanedPhoneNumber phone)"
    by (simp add: normalize_as_specified_def cleanedPhoneNumber_def)
  have c: "cleanPhoneNumber (Some phone) = Some (cleanedPhoneNumber phone)
            \<and> cleanPhoneNumber (Some phone) = Some (normalize_as_specified phone)"
    if "\<forall>c \<in> set phone. \<not> is_space c"
      and "\<not> (take 2 (cleanedPhoneNumber phone) = ''91''
              \<and> length (cleanedPhoneNumber phone) > 10)"
  proof -
    have "normalize_as_specified phone = cleanedPhoneNumber phone"
      using b no_space_kept [OF that(1)] by simp
    then show ?thesis
      using a that(2) by (simp add: Let_def)
  qed
  show ?thesis
    using a b c by blast
qed

theorem cleanPhoneNumber_normalization_witness:
  "cleanPhoneNumber (Some ''+919876543210'') = Some ''9876543210''
   \<and> cleanPhoneNumber (Some ''+919876543210'') = Some (cleanedPhoneNumber ''+919876543210'')"
proof -
  have "(\<forall>c \<in> set ''+919876543210''. \<not> is_space c)
      \<and> \<not> (take 2 (cleanedPhoneNumber ''+919876543210'') = ''91''
            \<and> length (cleanedPhoneNumber ''+919876543210'') > 10)"
    by (simp add: is_space_def cleanedPhoneNumber_def strip_prefix_def)
  then show ?thesis
    using cleanPhoneNumber_normalization [of "''+919876543210''"]
    by (simp add: cleanedPhoneNumber_def strip_prefix_def)
qed



end
